theory Spec2Isabelle
  imports Main "HOL-Library.AList"
begin

section \<open>The qpSWIFT adapter of qpsolvers\<close>

text \<open>
  A shallow embedding of \<^verbatim>\<open>qpswift_solve_qp\<close>
  (\<^verbatim>\<open>src/qpsolvers/solvers/qpswift_.py\<close>): the wrapper that hands a quadratic program
  to \<^verbatim>\<open>qpSWIFT.run\<close> and reads its result. The numerical solver is no part of the file; it
  is a parameter \<open>run\<close> of the model.
\<close>

subsection \<open>Python values the wrapper handles\<close>

text \<open>
  Arrays (\<^verbatim>\<open>numpy.ndarray\<close>) are values of a type variable \<open>'v\<close>: the wrapper never looks
  inside one. A Python \<^verbatim>\<open>dict\<close> with string keys is an association list read by
  \<^const>\<open>map_of\<close> and written by \<^const>\<open>AList.update\<close>, which replaces the value of a key
  in place and appends a new key, as item assignment on a \<^verbatim>\<open>dict\<close> does.
\<close>

type_synonym 'x dict = "(string \<times> 'x) list"

text \<open>
  Values of the option dictionary: integers (the two keys the wrapper writes, and
  \<^verbatim>\<open>MAXITER\<close>), or anything else (\<open>'o\<close>, the floats of \<^verbatim>\<open>ABSTOL\<close>, \<^verbatim>\<open>RELTOL\<close>,
  \<^verbatim>\<open>SIGMA\<close>).
\<close>

datatype 'o optval = OInt int | OOther 'o

text \<open>
  Values of the dictionary that \<^verbatim>\<open>qpSWIFT.run\<close> returns: a sub-dictionary of integer
  fields (as \<^verbatim>\<open>basicInfo\<close> with its \<^verbatim>\<open>ExitFlag\<close>) or an array (as \<^verbatim>\<open>sol\<close>). Any key
  may be missing, and any key may hold either kind of value.
\<close>

datatype 'v resval = Info "int dict" | Vec 'v

text \<open>The exceptions of the model: the one the wrapper raises, those of a failed subscript,
  and those a backend may raise.\<close>

datatype exn =
    NotImplementedError string
  | KeyError string
  | IndexError string
  | ValueError string
  | TypeError string

text \<open>
  A call of \<^verbatim>\<open>qpSWIFT.run\<close>: its positional arguments in order, then its keyword
  arguments. An argument is an array or the option dictionary, recorded with the content
  it has when the call is made.
\<close>

datatype ('v, 'o) arg = Arr 'v | Opts "'o optval dict"

record ('v, 'o) call =
  pos :: "('v, 'o) arg list"
  kw :: "(string \<times> ('v, 'o) arg) list"

text \<open>
  The backend: \<^verbatim>\<open>qpSWIFT.run\<close> either raises or returns a dictionary. It reads its
  arguments and writes to none of them.
\<close>

type_synonym ('v, 'o) backend = "('v, 'o) call \<Rightarrow> exn + 'v resval dict"

subsection \<open>The state around a call\<close>

text \<open>
  Dictionaries are objects: the caller's \<^verbatim>\<open>opts\<close> is a reference, and what the wrapper
  writes through it the caller sees. The heap maps an address to the content of the
  dictionary there; \<open>next_addr\<close> is the first address not yet handed out. The state also
  holds the lines printed to standard output and the calls made to the backend, oldest
  first.
\<close>

type_synonym addr = nat

record ('v, 'o) world =
  heap :: "addr \<Rightarrow> 'o optval dict"
  next_addr :: addr
  stdout :: "string list"
  calls :: "('v, 'o) call list"

definition print_line :: "string \<Rightarrow> ('v, 'o) world \<Rightarrow> ('v, 'o) world" where
  "print_line l s = s\<lparr>stdout := stdout s @ [l]\<rparr>"

text \<open>\<^verbatim>\<open>{}\<close>: a new, empty dictionary at a fresh address.\<close>

definition new_dict :: "('v, 'o) world \<Rightarrow> addr \<times> ('v, 'o) world" where
  "new_dict s =
     (next_addr s, s\<lparr>heap := (heap s)(next_addr s := []), next_addr := Suc (next_addr s)\<rparr>)"

text \<open>\<^verbatim>\<open>d[k] = v\<close> on the dictionary at address \<open>r\<close>.\<close>

definition setitem :: "addr \<Rightarrow> string \<Rightarrow> 'o optval \<Rightarrow> ('v, 'o) world \<Rightarrow> ('v, 'o) world" where
  "setitem r k v s = s\<lparr>heap := (heap s)(r := AList.update k v (heap s r))\<rparr>"

text \<open>\<^verbatim>\<open>d[k]\<close> on a dictionary: the value, or \<^verbatim>\<open>KeyError\<close>.\<close>

definition getitem :: "'x dict \<Rightarrow> string \<Rightarrow> exn + 'x" where
  "getitem d k = (case map_of d k of None \<Rightarrow> Inl (KeyError k) | Some v \<Rightarrow> Inr v)"

text \<open>Calling the backend: the call is recorded, its outcome handed back.\<close>

definition invoke ::
  "('v, 'o) backend \<Rightarrow> ('v, 'o) call \<Rightarrow> ('v, 'o) world \<Rightarrow> (exn + 'v resval dict) \<times> ('v, 'o) world"
where
  "invoke run c s = (run c, s\<lparr>calls := calls s @ [c]\<rparr>)"

subsection \<open>The wrapper\<close>

definition warm_start_note :: string where
  "warm_start_note = ''qpSWIFT: note that warm-start values ignored by wrapper''"

definition wip_message :: string where
  "wip_message = ''QP without inequality constraints is still WIP for qpSWIFT''"

text \<open>The message of numpy's \<^verbatim>\<open>IndexError\<close> for a subscript that is a string.\<close>

definition index_message :: string where
  "index_message =
     ''only integers, slices (`:`), ellipsis (`...`), numpy.newaxis (`None`) '' @
     ''and integer or boolean arrays are valid indices''"

text \<open>\<^verbatim>\<open>result["basicInfo"]["ExitFlag"]\<close>. A string subscript on an array is numpy's
  \<^verbatim>\<open>IndexError\<close>.\<close>

definition exit_flag_of :: "'v resval dict \<Rightarrow> exn + int" where
  "exit_flag_of result =
     (case getitem result ''basicInfo'' of
        Inl e \<Rightarrow> Inl e
      | Inr (Info info) \<Rightarrow> getitem info ''ExitFlag''
      | Inr (Vec v) \<Rightarrow> Inl (IndexError index_message))"

text \<open>Lines 142 to 145: what the wrapper makes of the backend's outcome. An exception of
  the backend is not caught, so it leaves the wrapper as it is.\<close>

definition read_result :: "exn + 'v resval dict \<Rightarrow> exn + 'v resval option" where
  "read_result out =
     (case out of
        Inl e \<Rightarrow> Inl e
      | Inr result \<Rightarrow>
          (case exit_flag_of result of
             Inl e \<Rightarrow> Inl e
           | Inr exit_flag \<Rightarrow>
               if exit_flag \<noteq> 0 then Inr None
               else (case getitem result ''sol'' of
                       Inl e \<Rightarrow> Inl e
                     | Inr x \<Rightarrow> Inr (Some x))))"

text \<open>Lines 133 to 136: the call the wrapper makes when \<open>G\<close> and \<open>h\<close> are there; \<open>d\<close> is
  the option dictionary.\<close>

definition run_call ::
  "'v \<Rightarrow> 'v \<Rightarrow> 'v \<Rightarrow> 'v \<Rightarrow> 'v option \<Rightarrow> 'v option \<Rightarrow> 'o optval dict \<Rightarrow> ('v, 'o) call"
where
  "run_call P q G h A b d =
     (case (A, b) of
        (Some A', Some b') \<Rightarrow>
          \<lparr>pos = [Arr q, Arr h, Arr P, Arr G, Arr A', Arr b', Opts d], kw = []\<rparr>
      | _ \<Rightarrow> \<lparr>pos = [Arr q, Arr h, Arr P, Arr G], kw = [(''opts'', Opts d)]\<rparr>)"

text \<open>
  The wrapper itself, statement by statement. The outcome is \<open>Inl e\<close> for a raised
  exception, \<open>Inr None\<close> for \<^verbatim>\<open>return None\<close> and \<open>Inr (Some x)\<close> for
  \<^verbatim>\<open>return result["sol"]\<close>. (The local \<^verbatim>\<open>result: dict = {}\<close> of line 127 is overwritten
  or never read.)
\<close>

definition qpswift_solve_qp ::
  "('v, 'o) backend \<Rightarrow> 'v \<Rightarrow> 'v \<Rightarrow> 'v option \<Rightarrow> 'v option \<Rightarrow> 'v option \<Rightarrow> 'v option \<Rightarrow>
   'v option \<Rightarrow> bool \<Rightarrow> addr option \<Rightarrow> ('v, 'o) world \<Rightarrow>
   (exn + 'v resval option) \<times> ('v, 'o) world"
where
  "qpswift_solve_qp run P q G h A b initvals verbose opts s0 =
     (let s1 = (if initvals \<noteq> None then print_line warm_start_note s0 else s0);
          (r, s2) = (case opts of None \<Rightarrow> new_dict s1 | Some r \<Rightarrow> (r, s1));
          s3 = setitem r ''OUTPUT'' (OInt 1) s2;
          s4 = setitem r ''VERBOSE'' (OInt (if verbose then 1 else 0)) s3
      in case (G, h) of
           (Some G', Some h') \<Rightarrow>
             (let (out, s5) = invoke run (run_call P q G' h' A b (heap s4 r)) s4
              in (read_result out, s5))
         | _ \<Rightarrow> (Inl (NotImplementedError wip_message), s4))"

subsection \<open>Notions the properties are stated with\<close>

text \<open>The option dictionaries among the arguments of a call, positional ones first.\<close>

fun arg_opts :: "('v, 'o) arg \<Rightarrow> 'o optval dict option" where
  "arg_opts (Arr x) = None"
| "arg_opts (Opts d) = Some d"

definition passed_opts :: "('v, 'o) call \<Rightarrow> 'o optval dict list" where
  "passed_opts c = List.map_filter arg_opts (pos c @ map snd (kw c))"

text \<open>
  A backend outcome of the shape the wrapper expects: a returned dictionary with a
  \<^verbatim>\<open>basicInfo\<close> sub-dictionary holding an \<^verbatim>\<open>ExitFlag\<close>, and a \<^verbatim>\<open>sol\<close> entry.
\<close>

definition expected_shape :: "exn + 'v resval dict \<Rightarrow> bool" where
  "expected_shape out =
     (case out of
        Inl e \<Rightarrow> False
      | Inr result \<Rightarrow>
          (case map_of result ''basicInfo'' of
             Some (Info info) \<Rightarrow> map_of info ''ExitFlag'' \<noteq> None \<and> map_of result ''sol'' \<noteq> None
           | _ \<Rightarrow> False))"

subsection \<open>Concrete problems, states and backends\<close>

datatype ndarray = Vector "int list" | Matrix "int list list"

text \<open>Minimise \<open>x\<^sup>2 + y\<^sup>2 - 2x - 4y\<close> subject to \<open>x \<le> 1\<close>, and the equality
  \<open>x + y = 3\<close> where one is wanted.\<close>

definition P0 :: ndarray where "P0 = Matrix [[2, 0], [0, 2]]"
definition q0 :: ndarray where "q0 = Vector [- 2, - 4]"
definition G0 :: ndarray where "G0 = Matrix [[1, 0]]"
definition h0 :: ndarray where "h0 = Vector [1]"
definition A0 :: ndarray where "A0 = Matrix [[1, 1]]"
definition b0 :: ndarray where "b0 = Vector [3]"
definition x0 :: ndarray where "x0 = Vector [1, 2]"

text \<open>A state with no dictionary yet, and one where the caller holds an option
  dictionary at address 0.\<close>

definition empty_world :: "(ndarray, unit) world" where
  "empty_world = \<lparr>heap = (\<lambda>a. []), next_addr = 0, stdout = [], calls = []\<rparr>"

definition caller_world :: "(ndarray, unit) world" where
  "caller_world =
     \<lparr>heap = (\<lambda>a. if a = 0 then [(''MAXITER'', OInt 50), (''VERBOSE'', OInt 7)] else []),
      next_addr = 1, stdout = [], calls = []\<rparr>"

text \<open>Backends: one that converges, one that stops at its iteration limit (exit flag 2),
  one that rejects its arguments, one whose result has no status.\<close>

definition converging :: "(ndarray, unit) backend" where
  "converging c =
     Inr [(''sol'', Vec x0), (''basicInfo'', Info [(''ExitFlag'', 0), (''Iterations'', 6)])]"

definition stalling :: "(ndarray, unit) backend" where
  "stalling c =
     Inr [(''sol'', Vec (Vector [0, 0])),
          (''basicInfo'', Info [(''ExitFlag'', 2), (''Iterations'', 100)])]"

definition rejecting :: "(ndarray, unit) backend" where
  "rejecting c = Inl (ValueError ''P must be a square matrix'')"

definition statusless :: "(ndarray, unit) backend" where
  "statusless c = Inr [(''sol'', Vec x0)]"

text \<open>A backend that takes the keyword form with four positional arguments, stops there
  at its iteration limit, and rejects every other call.\<close>

definition picky :: "(ndarray, unit) backend" where
  "picky c =
     (if length (pos c) = 4 \<and> map fst (kw c) = [''opts'']
      then Inr [(''sol'', Vec (Vector [0, 0])),
                (''basicInfo'', Info [(''ExitFlag'', 2), (''Iterations'', 100)])]
      else Inl (TypeError ''run() takes q, h, P, G and the keyword opts''))"

section \<open>Properties\<close>

subsection \<open>The two paths of the wrapper\<close>

text \<open>Without \<open>G\<close> or \<open>h\<close>: the exception, after the notice and the two writes.\<close>

lemma solve_absent:
  "G = None \<or> h = None \<Longrightarrow>
   qpswift_solve_qp run P q G h A b initvals verbose opts s =
     (Inl (NotImplementedError wip_message),
      (let s1 = (if initvals \<noteq> None then print_line warm_start_note s else s);
           (r, s2) = (case opts of None \<Rightarrow> new_dict s1 | Some r \<Rightarrow> (r, s1))
       in setitem r ''VERBOSE'' (OInt (if verbose then 1 else 0)) (setitem r ''OUTPUT'' (OInt 1) s2)))"
  by (auto simp: qpswift_solve_qp_def Let_def split: option.splits prod.splits)

text \<open>With \<open>G\<close> and \<open>h\<close>: one call, and the reading of its outcome.\<close>

lemma solve_present:
  "qpswift_solve_qp run P q (Some G') (Some h') A b initvals verbose opts s =
     (let s1 = (if initvals \<noteq> None then print_line warm_start_note s else s);
          (r, s2) = (case opts of None \<Rightarrow> new_dict s1 | Some r \<Rightarrow> (r, s1));
          s4 = setitem r ''VERBOSE'' (OInt (if verbose then 1 else 0)) (setitem r ''OUTPUT'' (OInt 1) s2);
          c = run_call P q G' h' A b (heap s4 r)
      in (read_result (run c), s4\<lparr>calls := calls s4 @ [c]\<rparr>))"
  by (simp add: qpswift_solve_qp_def Let_def invoke_def split: option.splits prod.splits)

lemma calls_prepared:
  "calls (setitem r k v s) = calls s" "calls (print_line l s) = calls s" "calls (snd (new_dict s)) = calls s"
  by (simp_all add: setitem_def print_line_def new_dict_def)

lemma reached_call:
  assumes "calls (snd (qpswift_solve_qp run P q G h A b initvals verbose opts s)) = calls s @ [c]"
  shows "\<exists>G' h'. G = Some G' \<and> h = Some h' \<and>
           fst (qpswift_solve_qp run P q G h A b initvals verbose opts s) = read_result (run c)"
proof (cases "G = None \<or> h = None")
  case True
  from solve_absent [OF True, of run P q A b initvals verbose opts s] assms
  show ?thesis
    by (auto simp: Let_def setitem_def print_line_def new_dict_def split: option.splits prod.splits if_splits)
next
  case False
  then obtain G' h' where gh: "G = Some G'" "h = Some h'" by auto
  from assms show ?thesis unfolding gh solve_present
    by (auto simp: Let_def setitem_def print_line_def new_dict_def split: option.splits prod.splits if_splits)
qed

lemma passed_opts_run_call: "passed_opts (run_call P q G h A b d) = [d]"
  by (simp add: passed_opts_def run_call_def List.map_filter_simps split: option.splits)

lemma reached_opts:
  assumes "calls (snd (qpswift_solve_qp run P q G h A b initvals verbose opts s)) = calls s @ [c]"
  shows "passed_opts c =
    [AList.update ''VERBOSE'' (OInt (if verbose then 1 else 0))
       (AList.update ''OUTPUT'' (OInt 1) (case opts of None \<Rightarrow> [] | Some r \<Rightarrow> heap s r))]"
proof -
  from reached_call [OF assms] obtain G' h' where gh: "G = Some G'" "h = Some h'" by blast
  from assms show ?thesis unfolding gh solve_present
    by (auto simp: Let_def setitem_def new_dict_def print_line_def passed_opts_run_call
        split: option.splits prod.splits if_splits)
qed

lemma present_trace:
  "\<exists>c. calls (snd (qpswift_solve_qp run P q (Some G') (Some h') A b initvals verbose opts s))
          = calls s @ [c]
       \<and> fst (qpswift_solve_qp run P q (Some G') (Some h') A b initvals verbose opts s)
          = read_result (run c)"
  by (cases opts) (auto simp: solve_present Let_def new_dict_def setitem_def print_line_def)

lemma expected_shape_read: "expected_shape out \<Longrightarrow> \<exists>r. read_result out = Inr r"
  by (auto simp: expected_shape_def read_result_def exit_flag_of_def getitem_def
      split: sum.splits option.splits resval.splits)

lemmas run_defs = solve_present solve_absent Let_def new_dict_def setitem_def print_line_def
  run_call_def empty_world_def caller_world_def read_result_def exit_flag_of_def getitem_def

subsection \<open>Errors and results\<close>

text \<open>
  C1 as it is stated fails: with \<open>G\<close> and \<open>h\<close> given, an exception of the backend leaves
  the wrapper uncaught, and a result without \<^verbatim>\<open>basicInfo\<close> makes line 142 raise
  \<^verbatim>\<open>KeyError\<close>. Neither is the \<^verbatim>\<open>NotImplementedError\<close>, neither is a returned \<^verbatim>\<open>None\<close>.
\<close>

theorem uncaught_errors_counterexample:
  "fst (qpswift_solve_qp rejecting P0 q0 (Some G0) (Some h0) None None None False None empty_world)
     = Inl (ValueError ''P must be a square matrix'')
   \<and> fst (qpswift_solve_qp statusless P0 q0 (Some G0) (Some h0) None None None False None empty_world)
     = Inl (KeyError ''basicInfo'')"
  by (simp add: solve_present Let_def new_dict_def rejecting_def statusless_def read_result_def
      exit_flag_of_def getitem_def)

text \<open>
  C1, as amended. With neither \<open>G\<close> nor \<open>h\<close> the wrapper raises \<^verbatim>\<open>NotImplementedError\<close>,
  whatever the other arguments, the state and the backend are. When the backend answers the
  call the wrapper makes with a result of the expected shape, that is the only exception the
  wrapper raises, and it is raised only when \<open>G\<close> or \<open>h\<close> is missing. And a result whose
  \<^verbatim>\<open>ExitFlag\<close> is not zero comes out as the returned \<^verbatim>\<open>None\<close>, not as an exception.
\<close>

theorem structural_error_only:
  "(G = None \<and> h = None \<longrightarrow>
      fst (qpswift_solve_qp run P q G h A b initvals verbose opts s)
        = Inl (NotImplementedError wip_message))
   \<and> ((\<forall>c. calls (snd (qpswift_solve_qp run P q G h A b initvals verbose opts s)) = calls s @ [c]
            \<longrightarrow> expected_shape (run c)) \<longrightarrow>
       (\<forall>e. fst (qpswift_solve_qp run P q G h A b initvals verbose opts s) = Inl e \<longrightarrow>
            e = NotImplementedError wip_message \<and> (G = None \<or> h = None)))
   \<and> (\<forall>c result info k.
         calls (snd (qpswift_solve_qp run P q G h A b initvals verbose opts s)) = calls s @ [c]
         \<and> run c = Inr result
         \<and> map_of result ''basicInfo'' = Some (Info info)
         \<and> map_of info ''ExitFlag'' = Some k \<and> k \<noteq> 0 \<longrightarrow>
         fst (qpswift_solve_qp run P q G h A b initvals verbose opts s) = Inr None)"
  (is "?absent \<and> ?only \<and> ?none")
proof (intro conjI)
  show ?absent by (simp add: solve_absent)
next
  show ?only
  proof (intro impI allI)
    fix e
    assume shape: "\<forall>c. calls (snd (qpswift_solve_qp run P q G h A b initvals verbose opts s))
        = calls s @ [c] \<longrightarrow> expected_shape (run c)"
      and raised: "fst (qpswift_solve_qp run P q G h A b initvals verbose opts s) = Inl e"
    show "e = NotImplementedError wip_message \<and> (G = None \<or> h = None)"
    proof (cases "G = None \<or> h = None")
      case True
      with raised show ?thesis by (simp add: solve_absent)
    next
      case False
      then obtain G' h' where gh: "G = Some G'" "h = Some h'" by auto
      from present_trace [of run P q G' h' A b initvals verbose opts s]
      obtain c where tr: "calls (snd (qpswift_solve_qp run P q G h A b initvals verbose opts s))
            = calls s @ [c]"
        and out: "fst (qpswift_solve_qp run P q G h A b initvals verbose opts s)
            = read_result (run c)"
        unfolding gh by blast
      from shape tr have "expected_shape (run c)" by blast
      then have "\<exists>r. read_result (run c) = Inr r" by (rule expected_shape_read)
      with out raised show ?thesis by auto
    qed
  qed
next
  show ?none
  proof (intro allI impI, elim conjE)
    fix c result info k
    assume tr: "calls (snd (qpswift_solve_qp run P q G h A b initvals verbose opts s))
          = calls s @ [c]"
      and res: "run c = Inr result" "map_of result ''basicInfo'' = Some (Info info)"
        "map_of info ''ExitFlag'' = Some k" "k \<noteq> 0"
    from reached_call [OF tr] res
    show "fst (qpswift_solve_qp run P q G h A b initvals verbose opts s) = Inr None"
      by (auto simp: read_result_def exit_flag_of_def getitem_def)
  qed
qed

text \<open>Without \<open>G\<close> and \<open>h\<close> the wrapper raises also with the backend that rejects every
  call. The backend that takes the keyword form only answers the one call made to it, in
  the expected shape and with exit flag 2: the wrapper raises nothing and returns
  \<^verbatim>\<open>None\<close>.\<close>

theorem structural_error_only_witness:
  "fst (qpswift_solve_qp rejecting P0 q0 None None (Some A0) (Some b0) None False None empty_world)
       = Inl (NotImplementedError wip_message)
   \<and> calls (snd (qpswift_solve_qp picky P0 q0 (Some G0) (Some h0) None None None False None
        empty_world))
       = calls empty_world @
         [\<lparr>pos = [Arr q0, Arr h0, Arr P0, Arr G0],
           kw = [(''opts'', Opts [(''OUTPUT'', OInt 1), (''VERBOSE'', OInt 0)])]\<rparr>]
   \<and> expected_shape (picky \<lparr>pos = [Arr q0, Arr h0, Arr P0, Arr G0],
           kw = [(''opts'', Opts [(''OUTPUT'', OInt 1), (''VERBOSE'', OInt 0)])]\<rparr>)
   \<and> (\<forall>e. fst (qpswift_solve_qp picky P0 q0 (Some G0) (Some h0) None None None False None
        empty_world) \<noteq> Inl e)
   \<and> fst (qpswift_solve_qp picky P0 q0 (Some G0) (Some h0) None None None False None empty_world)
       = Inr None"
proof -
  let ?c = "\<lparr>pos = [Arr q0, Arr h0, Arr P0, Arr G0],
             kw = [(''opts'', Opts [(''OUTPUT'', OInt 1), (''VERBOSE'', OInt 0)])]\<rparr>
            :: (ndarray, unit) call"
  let ?info = "[(''ExitFlag'', 2), (''Iterations'', 100)] :: int dict"
  let ?res = "[(''sol'', Vec (Vector [0, 0])), (''basicInfo'', Info ?info)] :: ndarray resval dict"
  let ?R = "qpswift_solve_qp picky P0 q0 (Some G0) (Some h0) None None None False None empty_world"
  have nie: "fst (qpswift_solve_qp rejecting P0 q0 None None (Some A0) (Some b0) None False None
      empty_world) = Inl (NotImplementedError wip_message)"
    using structural_error_only [of None None rejecting P0 q0 "Some A0" "Some b0" None False None
        empty_world]
    by blast
  have tr: "calls (snd ?R) = calls empty_world @ [?c]"
    by (simp add: run_defs)
  have ans: "picky ?c = Inr ?res" by (simp add: picky_def)
  have sh: "expected_shape (picky ?c)" by (simp add: ans expected_shape_def)
  have hyp: "\<forall>c. calls (snd ?R) = calls empty_world @ [c] \<longrightarrow> expected_shape (picky c)"
    using sh by (simp add: tr)
  have flag: "calls (snd ?R) = calls empty_world @ [?c] \<and> picky ?c = Inr ?res
      \<and> map_of ?res ''basicInfo'' = Some (Info ?info)
      \<and> map_of ?info ''ExitFlag'' = Some 2 \<and> (2::int) \<noteq> 0"
    using tr ans by simp
  note inst = structural_error_only [of "Some G0" "Some h0" picky P0 q0 None None None False None
      empty_world]
  from inst hyp have only: "\<forall>e. fst ?R \<noteq> Inl e" by blast
  from inst flag have none: "fst ?R = Inr None" by blast
  from nie tr sh only none show ?thesis by blast
qed

text \<open>
  C8. With exactly one of \<open>G\<close> and \<open>h\<close> given, the wrapper raises the same
  \<^verbatim>\<open>NotImplementedError\<close>, and behaves in every respect as it does with neither; the
  backend is not called.
\<close>

theorem partial_inequality_pair_raises:
  assumes "(G = None) \<noteq> (h = None)"
  shows "fst (qpswift_solve_qp run P q G h A b initvals verbose opts s)
           = Inl (NotImplementedError wip_message)
       \<and> qpswift_solve_qp run P q G h A b initvals verbose opts s
           = qpswift_solve_qp run P q None None A b initvals verbose opts s
       \<and> calls (snd (qpswift_solve_qp run P q G h A b initvals verbose opts s)) = calls s"
proof -
  from assms have "G = None \<or> h = None" by auto
  then show ?thesis
    by (simp add: solve_absent Let_def calls_prepared setitem_def new_dict_def print_line_def
        split: option.splits prod.splits)
qed

text \<open>\<open>G\<close> without \<open>h\<close>, and \<open>h\<close> without \<open>G\<close>.\<close>

theorem partial_inequality_pair_raises_witness:
  "fst (qpswift_solve_qp converging P0 q0 (Some G0) None None None None False None empty_world)
     = Inl (NotImplementedError wip_message)
   \<and> fst (qpswift_solve_qp converging P0 q0 None (Some h0) None None None False None empty_world)
     = Inl (NotImplementedError wip_message)"
proof -
  have g: "(Some G0 = None) \<noteq> ((None :: ndarray option) = None)" by simp
  have h: "((None :: ndarray option) = None) \<noteq> (Some h0 = None)" by simp
  from partial_inequality_pair_raises [OF g, of converging P0 q0 None None None False None empty_world]
    partial_inequality_pair_raises [OF h, of converging P0 q0 None None None False None empty_world]
  show ?thesis by blast
qed

text \<open>
  C10. When \<open>G\<close> or \<open>h\<close> is missing and the caller passed a dictionary (at address \<open>r\<close>),
  the wrapper raises \<^verbatim>\<open>NotImplementedError\<close> without calling the backend, and yet the
  caller's dictionary has \<^verbatim>\<open>OUTPUT\<close> and \<^verbatim>\<open>VERBOSE\<close> written into it.
\<close>

theorem options_written_before_error:
  assumes "G = None \<or> h = None" and "opts = Some r"
  shows "fst (qpswift_solve_qp run P q G h A b initvals verbose opts s)
           = Inl (NotImplementedError wip_message)
       \<and> calls (snd (qpswift_solve_qp run P q G h A b initvals verbose opts s)) = calls s
       \<and> heap (snd (qpswift_solve_qp run P q G h A b initvals verbose opts s)) r
           = AList.update ''VERBOSE'' (OInt (if verbose then 1 else 0))
               (AList.update ''OUTPUT'' (OInt 1) (heap s r))
       \<and> map_of (heap (snd (qpswift_solve_qp run P q G h A b initvals verbose opts s)) r) ''OUTPUT''
           = Some (OInt 1)
       \<and> map_of (heap (snd (qpswift_solve_qp run P q G h A b initvals verbose opts s)) r) ''VERBOSE''
           = Some (OInt (if verbose then 1 else 0))"
  unfolding solve_absent [OF assms(1)] assms(2)
  by (simp add: Let_def setitem_def print_line_def update_conv')

text \<open>The caller's dictionary before and after a run that raises.\<close>

theorem options_written_before_error_witness:
  "heap caller_world 0 = [(''MAXITER'', OInt 50), (''VERBOSE'', OInt 7)]
   \<and> fst (qpswift_solve_qp converging P0 q0 None None None None None False (Some 0) caller_world)
     = Inl (NotImplementedError wip_message)
   \<and> heap (snd (qpswift_solve_qp converging P0 q0 None None None None None False (Some 0)
            caller_world)) 0
     = [(''MAXITER'', OInt 50), (''VERBOSE'', OInt 0), (''OUTPUT'', OInt 1)]
   \<and> calls (snd (qpswift_solve_qp converging P0 q0 None None None None None False (Some 0)
            caller_world)) = []"
  using options_written_before_error [of None None "Some 0" 0 converging P0 q0 None None None False caller_world]
  by (simp add: caller_world_def)

subsection \<open>Reading the result\<close>

text \<open>
  C2. When the backend is reached with a call \<open>c\<close> and returns a result whose
  \<^verbatim>\<open>basicInfo\<close> holds a non-zero \<^verbatim>\<open>ExitFlag\<close>, the wrapper returns \<^verbatim>\<open>None\<close>; it returns no
  value of the result, whatever its \<^verbatim>\<open>sol\<close> entry holds.
\<close>

theorem nonzero_exit_flag_returns_None:
  assumes "calls (snd (qpswift_solve_qp run P q G h A b initvals verbose opts s)) = calls s @ [c]"
    and "run c = Inr result"
    and "map_of result ''basicInfo'' = Some (Info info)"
    and "map_of info ''ExitFlag'' = Some k"
    and "k \<noteq> 0"
  shows "fst (qpswift_solve_qp run P q G h A b initvals verbose opts s) = Inr None
       \<and> (\<forall>x. fst (qpswift_solve_qp run P q G h A b initvals verbose opts s) \<noteq> Inr (Some x))"
  using reached_call [OF assms(1)] assms(2-)
  by (auto simp: read_result_def exit_flag_of_def getitem_def)

text \<open>The backend that stops at its iteration limit: the wrapper returns \<^verbatim>\<open>None\<close>.\<close>

theorem nonzero_exit_flag_returns_None_witness:
  "stalling \<lparr>pos = [Arr q0, Arr h0, Arr P0, Arr G0],
             kw = [(''opts'', Opts [(''OUTPUT'', OInt 1), (''VERBOSE'', OInt 0)])]\<rparr>
     = Inr [(''sol'', Vec (Vector [0, 0])),
            (''basicInfo'', Info [(''ExitFlag'', 2), (''Iterations'', 100)])]
   \<and> fst (qpswift_solve_qp stalling P0 q0 (Some G0) (Some h0) None None None False None empty_world)
       = Inr None"
proof -
  let ?c = "\<lparr>pos = [Arr q0, Arr h0, Arr P0, Arr G0],
             kw = [(''opts'', Opts [(''OUTPUT'', OInt 1), (''VERBOSE'', OInt 0)])]\<rparr>
            :: (ndarray, unit) call"
  let ?info = "[(''ExitFlag'', 2), (''Iterations'', 100)] :: int dict"
  let ?res = "[(''sol'', Vec (Vector [0, 0])), (''basicInfo'', Info ?info)] :: ndarray resval dict"
  have h1: "calls (snd (qpswift_solve_qp stalling P0 q0 (Some G0) (Some h0) None None None False
      None empty_world)) = calls empty_world @ [?c]"
    by (simp add: run_defs)
  have h2: "stalling ?c = Inr ?res" by (simp add: stalling_def)
  have h3: "map_of ?res ''basicInfo'' = Some (Info ?info)" by simp
  have h4: "map_of ?info ''ExitFlag'' = Some 2" by simp
  have h5: "(2::int) \<noteq> 0" by simp
  from nonzero_exit_flag_returns_None [OF h1 h2 h3 h4 h5] h2 show ?thesis by simp
qed

text \<open>
  C3. When the backend is reached with a call \<open>c\<close> and returns a result whose
  \<^verbatim>\<open>ExitFlag\<close> is 0, the wrapper returns the value under \<^verbatim>\<open>sol\<close> as it is.
\<close>

theorem zero_exit_flag_returns_sol:
  assumes "calls (snd (qpswift_solve_qp run P q G h A b initvals verbose opts s)) = calls s @ [c]"
    and "run c = Inr result"
    and "map_of result ''basicInfo'' = Some (Info info)"
    and "map_of info ''ExitFlag'' = Some 0"
    and "map_of result ''sol'' = Some x"
  shows "fst (qpswift_solve_qp run P q G h A b initvals verbose opts s) = Inr (Some x)"
  using reached_call [OF assms(1)] assms(2-)
  by (auto simp: read_result_def exit_flag_of_def getitem_def)

text \<open>The converging backend: the wrapper returns its \<^verbatim>\<open>sol\<close>.\<close>

theorem zero_exit_flag_returns_sol_witness:
  "converging \<lparr>pos = [Arr q0, Arr h0, Arr P0, Arr G0],
               kw = [(''opts'', Opts [(''OUTPUT'', OInt 1), (''VERBOSE'', OInt 0)])]\<rparr>
     = Inr [(''sol'', Vec x0), (''basicInfo'', Info [(''ExitFlag'', 0), (''Iterations'', 6)])]
   \<and> fst (qpswift_solve_qp converging P0 q0 (Some G0) (Some h0) None None None False None
            empty_world)
       = Inr (Some (Vec x0))"
proof -
  let ?c = "\<lparr>pos = [Arr q0, Arr h0, Arr P0, Arr G0],
             kw = [(''opts'', Opts [(''OUTPUT'', OInt 1), (''VERBOSE'', OInt 0)])]\<rparr>
            :: (ndarray, unit) call"
  let ?info = "[(''ExitFlag'', 0), (''Iterations'', 6)] :: int dict"
  let ?res = "[(''sol'', Vec x0), (''basicInfo'', Info ?info)] :: ndarray resval dict"
  have h1: "calls (snd (qpswift_solve_qp converging P0 q0 (Some G0) (Some h0) None None None False
      None empty_world)) = calls empty_world @ [?c]"
    by (simp add: run_defs)
  have h2: "converging ?c = Inr ?res" by (simp add: converging_def)
  have h3: "map_of ?res ''basicInfo'' = Some (Info ?info)" by simp
  have h4: "map_of ?info ''ExitFlag'' = Some 0" by simp
  have h5: "map_of ?res ''sol'' = Some (Vec x0)" by simp
  from zero_exit_flag_returns_sol [OF h1 h2 h3 h4 h5] h2 show ?thesis by simp
qed

subsection \<open>The call to the backend\<close>

text \<open>
  C4. With \<open>G\<close>, \<open>h\<close>, \<open>A\<close> and \<open>b\<close> all given, the wrapper calls the backend once, with the
  positional arguments \<open>q, h, P, G, A, b\<close> and the option dictionary, in this order, and with
  no keyword argument. The dictionary passed is the caller's, or the new one when the caller
  gave none.
\<close>

theorem full_call_form:
  assumes "G = Some G'" and "h = Some h'" and "A = Some A'" and "b = Some b'"
  shows "\<exists>d. calls (snd (qpswift_solve_qp run P q G h A b initvals verbose opts s)) =
           calls s @ [\<lparr>pos = [Arr q, Arr h', Arr P, Arr G', Arr A', Arr b', Opts d], kw = []\<rparr>]
         \<and> d = heap (snd (qpswift_solve_qp run P q G h A b initvals verbose opts s))
                 (case opts of None \<Rightarrow> next_addr s | Some r \<Rightarrow> r)"
  unfolding assms solve_present
  by (simp add: Let_def run_call_def setitem_def new_dict_def print_line_def
      split: option.splits prod.splits)

text \<open>A run with both constraint blocks and the caller's dictionary.\<close>

theorem full_call_form_witness:
  "calls (snd (qpswift_solve_qp converging P0 q0 (Some G0) (Some h0) (Some A0) (Some b0) None True
            (Some 0) caller_world))
     = [\<lparr>pos = [Arr q0, Arr h0, Arr P0, Arr G0, Arr A0, Arr b0,
                Opts [(''MAXITER'', OInt 50), (''VERBOSE'', OInt 1), (''OUTPUT'', OInt 1)]],
         kw = []\<rparr>]"
  using full_call_form [of "Some G0" G0 "Some h0" h0 "Some A0" A0 "Some b0" b0 converging P0 q0 None True
      "Some 0" caller_world]
  by (simp add: run_defs)

text \<open>
  C5. With \<open>G\<close> and \<open>h\<close> given and neither \<open>A\<close> nor \<open>b\<close>, the wrapper calls the backend
  once, with the positional arguments \<open>q, h, P, G\<close> and the option dictionary under the
  keyword \<^verbatim>\<open>opts\<close>: no argument stands for the equality constraints.
\<close>

theorem inequality_only_call_form:
  assumes "G = Some G'" and "h = Some h'" and "A = None" and "b = None"
  shows "\<exists>d. calls (snd (qpswift_solve_qp run P q G h A b initvals verbose opts s)) =
           calls s @ [\<lparr>pos = [Arr q, Arr h', Arr P, Arr G'], kw = [(''opts'', Opts d)]\<rparr>]
         \<and> d = heap (snd (qpswift_solve_qp run P q G h A b initvals verbose opts s))
                 (case opts of None \<Rightarrow> next_addr s | Some r \<Rightarrow> r)"
  unfolding assms solve_present
  by (simp add: Let_def run_call_def setitem_def new_dict_def print_line_def
      split: option.splits prod.splits)

text \<open>A run with the inequality block alone and no dictionary of the caller's.\<close>

theorem inequality_only_call_form_witness:
  "calls (snd (qpswift_solve_qp converging P0 q0 (Some G0) (Some h0) None None None False None
            empty_world))
     = [\<lparr>pos = [Arr q0, Arr h0, Arr P0, Arr G0],
         kw = [(''opts'', Opts [(''OUTPUT'', OInt 1), (''VERBOSE'', OInt 0)])]\<rparr>]"
  using inequality_only_call_form [of "Some G0" G0 "Some h0" h0 None None converging P0 q0 None False None empty_world]
  by (simp add: run_defs)

text \<open>
  C9. With \<open>G\<close> and \<open>h\<close> given and exactly one of \<open>A\<close> and \<open>b\<close>, the wrapper behaves in
  every respect as it does with neither \<open>A\<close> nor \<open>b\<close>: it calls the backend with
  \<open>q, h, P, G\<close> and the keyword \<^verbatim>\<open>opts\<close>, its outcome is what it reads from the backend's
  answer to that call, and it prints nothing but the note on \<open>initvals\<close>.
\<close>

theorem partial_equality_pair_dropped:
  assumes "G = Some G'" and "h = Some h'" and "(A = None) \<noteq> (b = None)"
  shows "qpswift_solve_qp run P q G h A b initvals verbose opts s
           = qpswift_solve_qp run P q G h None None initvals verbose opts s
       \<and> (\<exists>d. calls (snd (qpswift_solve_qp run P q G h A b initvals verbose opts s)) =
             calls s @ [\<lparr>pos = [Arr q, Arr h', Arr P, Arr G'], kw = [(''opts'', Opts d)]\<rparr>]
           \<and> fst (qpswift_solve_qp run P q G h A b initvals verbose opts s) =
             read_result (run \<lparr>pos = [Arr q, Arr h', Arr P, Arr G'], kw = [(''opts'', Opts d)]\<rparr>))
       \<and> stdout (snd (qpswift_solve_qp run P q G h A b initvals verbose opts s)) =
           stdout s @ (if initvals = None then [] else [warm_start_note])"
proof -
  from assms(3) have rc: "\<And>d. run_call P q G' h' A b d =
      \<lparr>pos = [Arr q, Arr h', Arr P, Arr G'], kw = [(''opts'', Opts d)]\<rparr>"
    by (auto simp: run_call_def split: option.splits)
  have rc0: "\<And>d. run_call P q G' h' None None d =
      \<lparr>pos = [Arr q, Arr h', Arr P, Arr G'], kw = [(''opts'', Opts d)]\<rparr>"
    by (simp add: run_call_def)
  show ?thesis unfolding assms(1,2) solve_present
    by (simp add: Let_def rc rc0 setitem_def new_dict_def print_line_def
        split: option.splits prod.splits)
qed

text \<open>\<open>A\<close> without \<open>b\<close>, and \<open>b\<close> without \<open>A\<close>.\<close>

theorem partial_equality_pair_dropped_witness:
  "qpswift_solve_qp converging P0 q0 (Some G0) (Some h0) (Some A0) None None False None empty_world
     = qpswift_solve_qp converging P0 q0 (Some G0) (Some h0) None None None False None empty_world
   \<and> stdout (snd (qpswift_solve_qp converging P0 q0 (Some G0) (Some h0) None (Some b0) None False
            None empty_world)) = stdout empty_world"
proof -
  have a: "(Some A0 = None) \<noteq> ((None :: ndarray option) = None)" by simp
  have b: "((None :: ndarray option) = None) \<noteq> (Some b0 = None)" by simp
  have 1: "qpswift_solve_qp converging P0 q0 (Some G0) (Some h0) (Some A0) None None False None
      empty_world
    = qpswift_solve_qp converging P0 q0 (Some G0) (Some h0) None None None False None empty_world"
    using partial_equality_pair_dropped [OF refl refl a, of converging P0 q0 G0 h0 None False None empty_world]
    by (rule conjunct1)
  have "stdout (snd (qpswift_solve_qp converging P0 q0 (Some G0) (Some h0) None (Some b0) None
      False None empty_world))
    = stdout empty_world @ (if (None :: ndarray option) = None then [] else [warm_start_note])"
    using partial_equality_pair_dropped [OF refl refl b, of converging P0 q0 G0 h0 None False None empty_world]
    by (elim conjE)
  then have 2: "stdout (snd (qpswift_solve_qp converging P0 q0 (Some G0) (Some h0) None (Some b0)
      None False None empty_world)) = stdout empty_world"
    by simp
  from 1 2 show ?thesis by (rule conjI)
qed

subsection \<open>Options and warm start\<close>

text \<open>
  C6. In every call that reaches the backend, one option dictionary is passed; in it
  \<^verbatim>\<open>OUTPUT\<close> is 1 and \<^verbatim>\<open>VERBOSE\<close> is 1 or 0 as \<open>verbose\<close> is true or false, whatever the
  caller had stored under these keys. Without a dictionary of the caller's, these two
  entries are all the backend receives; with one, every other key keeps its value.
\<close>

theorem reserved_option_keys:
  assumes "calls (snd (qpswift_solve_qp run P q G h A b initvals verbose opts s)) = calls s @ [c]"
  shows "\<exists>d. passed_opts c = [d]
       \<and> map_of d ''OUTPUT'' = Some (OInt 1)
       \<and> map_of d ''VERBOSE'' = Some (OInt (if verbose then 1 else 0))
       \<and> (opts = None \<longrightarrow> d = [(''OUTPUT'', OInt 1), (''VERBOSE'', OInt (if verbose then 1 else 0))])
       \<and> (\<forall>r k. opts = Some r \<and> k \<noteq> ''OUTPUT'' \<and> k \<noteq> ''VERBOSE'' \<longrightarrow>
             map_of d k = map_of (heap s r) k)"
  unfolding reached_opts [OF assms]
  by (auto simp: update_conv')

text \<open>The caller's \<^verbatim>\<open>VERBOSE\<close> of 7 is replaced by 1; \<^verbatim>\<open>MAXITER\<close> stays.\<close>

theorem reserved_option_keys_witness:
  "calls (snd (qpswift_solve_qp converging P0 q0 (Some G0) (Some h0) None None None True (Some 0)
            caller_world))
     = calls caller_world @
       [\<lparr>pos = [Arr q0, Arr h0, Arr P0, Arr G0],
         kw = [(''opts'',
                Opts [(''MAXITER'', OInt 50), (''VERBOSE'', OInt 1), (''OUTPUT'', OInt 1)])]\<rparr>]
   \<and> map_of [(''MAXITER'', OInt 50), (''VERBOSE'', OInt 1), (''OUTPUT'', OInt (1::int))] ''VERBOSE''
       = Some (OInt 1 :: unit optval)
   \<and> map_of (heap caller_world 0) ''VERBOSE'' = Some (OInt 7)"
proof -
  let ?c = "\<lparr>pos = [Arr q0, Arr h0, Arr P0, Arr G0],
         kw = [(''opts'',
                Opts [(''MAXITER'', OInt 50), (''VERBOSE'', OInt 1), (''OUTPUT'', OInt 1)])]\<rparr>
         :: (ndarray, unit) call"
  have h1: "calls (snd (qpswift_solve_qp converging P0 q0 (Some G0) (Some h0) None None None True
      (Some 0) caller_world)) = calls caller_world @ [?c]"
    by (simp add: run_defs)
  from reserved_option_keys [OF h1] h1 show ?thesis
    by (simp add: passed_opts_def List.map_filter_simps caller_world_def)
qed

text \<open>
  C7. Two runs that differ only in \<open>initvals\<close>, given in one and \<^verbatim>\<open>None\<close> in the other, have
  the same outcome and make the same calls to the backend; their final states differ in the
  printed note alone.
\<close>

theorem initvals_ignored:
  "fst (qpswift_solve_qp run P q G h A b (Some x) verbose opts s)
     = fst (qpswift_solve_qp run P q G h A b None verbose opts s)
   \<and> calls (snd (qpswift_solve_qp run P q G h A b (Some x) verbose opts s))
     = calls (snd (qpswift_solve_qp run P q G h A b None verbose opts s))
   \<and> snd (qpswift_solve_qp run P q G h A b (Some x) verbose opts s)
     = (snd (qpswift_solve_qp run P q G h A b None verbose opts s))
         \<lparr>stdout := stdout s @ [warm_start_note]\<rparr>
   \<and> stdout (snd (qpswift_solve_qp run P q G h A b None verbose opts s)) = stdout s"
  by (simp add: qpswift_solve_qp_def Let_def invoke_def setitem_def new_dict_def print_line_def
      split: option.splits prod.splits)

text \<open>A run with a warm-start vector prints the note and returns what the run without
  one returns.\<close>

theorem initvals_ignored_witness:
  "stdout (snd (qpswift_solve_qp converging P0 q0 (Some G0) (Some h0) None None (Some x0) False None
            empty_world)) = [warm_start_note]
   \<and> fst (qpswift_solve_qp converging P0 q0 (Some G0) (Some h0) None None (Some x0) False None
            empty_world)
     = fst (qpswift_solve_qp converging P0 q0 (Some G0) (Some h0) None None None False None
            empty_world)"
  using initvals_ignored [of converging P0 q0 "Some G0" "Some h0" None None x0 False None empty_world]
  by (simp add: run_defs)

end
